theory Spec2Isabelle
  imports Main "HOL-Library.Word"
begin

section \<open>Strings as Python handles them\<close>

text \<open>
  The texts of the program are Python strings. They are modelled as \<open>string\<close>, restricted
  to the ASCII range: a character of code 128 or more is neither a letter, a digit nor a
  space here. The character classes below are the ones of Python on that range.
\<close>

definition is_upper :: "char \<Rightarrow> bool" where
  "is_upper c = (c \<in> set ''ABCDEFGHIJKLMNOPQRSTUVWXYZ'')"

definition is_lower :: "char \<Rightarrow> bool" where
  "is_lower c = (c \<in> set ''abcdefghijklmnopqrstuvwxyz'')"

definition is_digit :: "char \<Rightarrow> bool" where
  "is_digit c = (c \<in> set ''0123456789'')"

text \<open>A cased character, in the sense of \<open>str.title\<close>: an ASCII letter.\<close>

definition is_cased :: "char \<Rightarrow> bool" where
  "is_cased c = (is_upper c \<or> is_lower c)"

text \<open>\<open>\w\<close> of a \<open>str\<close> pattern: letters, digits and the underscore.\<close>

definition is_word :: "char \<Rightarrow> bool" where
  "is_word c = (is_upper c \<or> is_lower c \<or> is_digit c \<or> c = CHR ''_'')"

text \<open>\<open>\s\<close> of a \<open>str\<close> pattern: codes 9 to 13, 28 to 31 and the blank.\<close>

definition is_space :: "char \<Rightarrow> bool" where
  "is_space c = (c \<in> set [CHR 0x09, CHR 0x0A, CHR 0x0B, CHR 0x0C, CHR 0x0D,
                           CHR 0x1C, CHR 0x1D, CHR 0x1E, CHR 0x1F, CHR '' ''])"

definition lower_char :: "char \<Rightarrow> char" where
  "lower_char c =
     (case map_of (zip ''ABCDEFGHIJKLMNOPQRSTUVWXYZ'' ''abcdefghijklmnopqrstuvwxyz'') c of
        None \<Rightarrow> c | Some d \<Rightarrow> d)"

definition upper_char :: "char \<Rightarrow> char" where
  "upper_char c =
     (case map_of (zip ''abcdefghijklmnopqrstuvwxyz'' ''ABCDEFGHIJKLMNOPQRSTUVWXYZ'') c of
        None \<Rightarrow> c | Some d \<Rightarrow> d)"

text \<open>\<open>s.lower()\<close>\<close>

definition lower :: "string \<Rightarrow> string" where
  "lower s = map lower_char s"

text \<open>
  \<open>s.title()\<close>: a character that follows a cased character is lowercased, any other
  character is uppercased; the flag is whether the previous character was cased.
\<close>

fun title_from :: "bool \<Rightarrow> string \<Rightarrow> string" where
  "title_from previous_is_cased [] = []"
| "title_from previous_is_cased (c # cs) =
     (if previous_is_cased then lower_char c else upper_char c) # title_from (is_cased c) cs"

definition title :: "string \<Rightarrow> string" where
  "title s = title_from False s"

text \<open>\<open>a in b\<close> on strings: \<open>a\<close> occurs in \<open>b\<close> as a contiguous run.\<close>

fun starts_with :: "string \<Rightarrow> string \<Rightarrow> bool" where
  "starts_with [] b = True"
| "starts_with (x # xs) [] = False"
| "starts_with (x # xs) (y # ys) = (x = y \<and> starts_with xs ys)"

fun str_in :: "string \<Rightarrow> string \<Rightarrow> bool" where
  "str_in a [] = (a = [])"
| "str_in a (y # ys) = (starts_with a (y # ys) \<or> str_in a ys)"

text \<open>\<open>str(n)\<close> of a natural number, as the f-string \<open>{i+1}\<close> renders it.\<close>

definition digit_char :: "nat \<Rightarrow> char" where
  "digit_char d = ''0123456789'' ! d"

fun str_nat :: "nat \<Rightarrow> string" where
  "str_nat n = (if n < 10 then [digit_char n] else str_nat (n div 10) @ [digit_char (n mod 10)])"

declare str_nat.simps [simp del]

section \<open>The regular expressions of the program\<close>

text \<open>
  The two patterns of the program use literals, the classes \<open>\s\<close>, \<open>\w\<close>, \<open>\d\<close> and
  \<open>.\<close>, greedy repetition of a class, concatenation, ordered alternation and capturing
  groups. \<open>rmatch\<close> is the backtracking matcher of \<open>re\<close>: from a position (the rest of the
  text) and the groups captured so far it lists every way to match, in the order in which
  backtracking tries them, so that the head of the list is the match \<open>re\<close> reports.
\<close>

datatype cls = Space | Word | Digit | Dot

fun cls_mem :: "cls \<Rightarrow> char \<Rightarrow> bool" where
  "cls_mem Space c = is_space c"
| "cls_mem Word c = is_word c"
| "cls_mem Digit c = is_digit c"
| "cls_mem Dot c = (c \<noteq> CHR 0x0A)"

datatype regex =
    Eps
  | Lit char
  | Cls cls
  | Many cls nat "nat option"
  | Cat regex regex
  | Alt regex regex
  | Grp nat regex

type_synonym caps = "nat \<Rightarrow> string option"

text \<open>How many leading characters of the text a greedy repetition can take, at most \<open>hi\<close>.\<close>

fun lead :: "cls \<Rightarrow> nat option \<Rightarrow> string \<Rightarrow> nat" where
  "lead k hi [] = 0"
| "lead k hi (x # xs) =
     (if hi = Some 0 \<or> \<not> cls_mem k x then 0
      else Suc (lead k (map_option (\<lambda>h. h - 1) hi) xs))"

fun rmatch :: "regex \<Rightarrow> string \<times> caps \<Rightarrow> (string \<times> caps) list" where
  "rmatch Eps (s, c) = [(s, c)]"
| "rmatch (Lit a) (s, c) = (case s of [] \<Rightarrow> [] | x # xs \<Rightarrow> if x = a then [(xs, c)] else [])"
| "rmatch (Cls k) (s, c) = (case s of [] \<Rightarrow> [] | x # xs \<Rightarrow> if cls_mem k x then [(xs, c)] else [])"
| "rmatch (Many k lo hi) (s, c) = map (\<lambda>j. (drop j s, c)) (rev [lo ..< Suc (lead k hi s)])"
| "rmatch (Cat r1 r2) (s, c) = concat (map (rmatch r2) (rmatch r1 (s, c)))"
| "rmatch (Alt r1 r2) (s, c) = rmatch r1 (s, c) @ rmatch r2 (s, c)"
| "rmatch (Grp n r) (s, c) =
     map (\<lambda>m. (fst m, (snd m)(n \<mapsto> take (length s - length (fst m)) s))) (rmatch r (s, c))"

text \<open>A literal run of characters, and a sequence of patterns.\<close>

definition lit :: "string \<Rightarrow> regex" where
  "lit s = foldr (\<lambda>a r. Cat (Lit a) r) s Eps"

definition cat :: "regex list \<Rightarrow> regex" where
  "cat rs = foldr Cat rs Eps"

text \<open>The tuple \<open>re.findall\<close> gives for one match: groups 1 to \<open>n\<close>, an unset group as \<open>''\<close>.\<close>

definition groups :: "nat \<Rightarrow> caps \<Rightarrow> string list" where
  "groups n c = map (\<lambda>i. case c i of None \<Rightarrow> [] | Some g \<Rightarrow> g) [1 ..< Suc n]"

text \<open>
  \<open>re.findall(pattern, s)\<close> for a pattern of \<open>n\<close> groups: the matches from left to right,
  each search starting where the previous match ended (one character further after an
  empty match).
\<close>

function findall :: "regex \<Rightarrow> nat \<Rightarrow> string \<Rightarrow> string list list" where
  "findall r n [] = (case rmatch r ([], Map.empty) of [] \<Rightarrow> [] | m # _ \<Rightarrow> [groups n (snd m)])"
| "findall r n (x # xs) =
     (case rmatch r (x # xs, Map.empty) of
        [] \<Rightarrow> findall r n xs
      | m # _ \<Rightarrow> groups n (snd m) #
                 findall r n (if length (fst m) < Suc (length xs) then fst m else xs))"
  by pat_completeness auto
termination
  by (relation "measure (\<lambda>(r, n, s). length s)") auto

text \<open>\<open>re.search(pattern, s)\<close> as a truth value: the pattern matches at some position.\<close>

fun re_search :: "regex \<Rightarrow> string \<Rightarrow> bool" where
  "re_search r [] = (rmatch r ([], Map.empty) \<noteq> [])"
| "re_search r (x # xs) = (rmatch r (x # xs, Map.empty) \<noteq> [] \<or> re_search r xs)"



section \<open>Period Extractor\<close>

datatype error =
    KeyError string
  | UnboundLocalError string
  | LibraryError string

text \<open>
  \<open>date_pattern\<close> of \<open>extract_specific_dates\<close>:
  \<^verbatim>\<open>(for the (quarterly|fiscal) period ended:\s*(\w+\s\d{1,2},\s\d{4}))|(for the  fiscal year ended:\s*(\w+\s\d{1,2},\s\d{4}))\<close>
\<close>

definition date_body :: "regex" where
  "date_body = cat [Many Word 1 None, Cls Space, Many Digit 1 (Some 2), Lit CHR '','',
                    Cls Space, Many Digit 4 (Some 4)]"

definition date_pattern :: "regex" where
  "date_pattern =
     Alt (Grp 1 (cat [lit ''for the '', Grp 2 (Alt (lit ''quarterly'') (lit ''fiscal'')),
                      lit '' period ended:'', Many Space 0 None, Grp 3 date_body]))
         (Grp 4 (cat [lit ''for the  fiscal year ended:'', Many Space 0 None, Grp 5 date_body]))"

text \<open>
  \<open>extract_specific_dates\<close>: \<open>matches\<close> is the list of 5-tuples of \<open>re.findall\<close>.
  \<open>pd.DataFrame(matches)\<close> has one row per match and one column per group;
  \<open>df_period[0]\<close> is column 0, which an empty frame does not have (\<open>KeyError: 0\<close>), and
  \<open>df_period[0][0]\<close> is group 1 of the first match.
\<close>

definition extract_specific_dates :: "string \<Rightarrow> error + string" where
  "extract_specific_dates text =
     (let matches = findall date_pattern 5 (lower text) in
      case matches of
        [] \<Rightarrow> Inl (KeyError ''0'')
      | row # _ \<Rightarrow> Inr (title (row ! 0)))"

section \<open>Files, screen and the libraries\<close>

type_synonym bytes = "8 word list"
type_synonym path = string

text \<open>A \<open>DataFrame\<close> of a table: rows of cells.\<close>

type_synonym grid = "string list list"

text \<open>
  What Streamlit is asked to show, in order. \<open>ErrorExc prefix e\<close> is
  \<open>st.error(f"prefix{e}")\<close> for a caught exception \<open>e\<close>.
\<close>

datatype ui =
    Title string
  | Sidebar ui
  | Header string
  | Subheader string
  | Write string
  | Expander string
  | Dataframe grid
  | TextInput string
  | Image string string
  | Error string
  | ErrorExc string error

record state =
  files :: "path \<Rightarrow> bytes option"
  screen :: "ui list"

definition emit :: "ui list \<Rightarrow> state \<Rightarrow> state" where
  "emit es st = st\<lparr>screen := screen st @ es\<rparr>"

definition write_file :: "path \<Rightarrow> bytes \<Rightarrow> state \<Rightarrow> state" where
  "write_file p data st = st\<lparr>files := (files st)(p \<mapsto> data)\<rparr>"

definition read_file :: "state \<Rightarrow> path \<Rightarrow> error + bytes" where
  "read_file st p = (case files st p of None \<Rightarrow> Inl (LibraryError ''FileNotFoundError'') | Some data \<Rightarrow> Inr data)"

text \<open>A table as camelot reports it: \<open>table.page\<close> (from 1), \<open>table._bbox\<close>, \<open>table.df\<close>.\<close>

record 'b table =
  page :: int
  bbox :: 'b
  df :: grid

text \<open>
  What the libraries and the user answer in one run. Each field is the outcome of the
  call named beside it; \<open>Inl\<close> is the exception it raises.
  \<^item> \<open>uploaded\<close>: \<open>st.file_uploader(...)\<close> and \<open>pdf_file.read()\<close>, \<open>None\<close> when nothing is uploaded;
  \<^item> \<open>tmp_dir\<close>, \<open>tmp_random\<close>: the directory and the random part of the name that
    \<open>tempfile.NamedTemporaryFile\<close> picks for a suffix;
  \<^item> \<open>fitz_pages\<close>: \<open>fitz.open(stream=..., filetype="pdf")\<close>, as the \<open>get_text()\<close> of each page;
  \<^item> \<open>spacy_ents\<close>: \<open>spacy.load("en_core_web_sm")(text).ents\<close>, as pairs of \<open>ent.text\<close> and \<open>ent.label_\<close>;
  \<^item> \<open>camelot_read_pdf\<close>: \<open>camelot.read_pdf(path, pages='all', flavor='stream')\<close> on a file of these bytes;
  \<^item> \<open>fitz_clip_text\<close>: \<open>fitz.open(path)\<close> on a file of these bytes, then
    \<open>doc[i].get_text("text", clip=bbox)\<close>;
  \<^item> \<open>create_index\<close>: the loader, the splitter (\<open>separator="\n", chunk_size=2000,
    chunk_overlap=200\<close>) and \<open>VectorstoreIndexCreator().from_documents(texts).vectorstore\<close>;
  \<^item> \<open>retrieval_qa\<close>: \<open>OpenAI(temperature=0.3)\<close> and \<open>RetrievalQA.from_chain_type(...)\<close>;
  \<^item> \<open>text_input\<close>: what the user typed in \<open>st.text_input\<close>;
  \<^item> \<open>qa_call\<close>: \<open>qa({"query": query})\<close>, as \<open>result['result']\<close> and the rendering of
    \<open>result['source_documents']\<close>.
\<close>

record ('b, 'ix, 'qa) env =
  uploaded :: "bytes option"
  tmp_dir :: path
  tmp_random :: "string \<Rightarrow> string"
  fitz_pages :: "bytes \<Rightarrow> error + string list"
  spacy_ents :: "string \<Rightarrow> error + (string \<times> string) list"
  camelot_read_pdf :: "bytes \<Rightarrow> error + 'b table list"
  fitz_clip_text :: "bytes \<Rightarrow> int \<Rightarrow> 'b \<Rightarrow> error + string"
  create_index :: "bytes \<Rightarrow> error + 'ix"
  retrieval_qa :: "'ix \<Rightarrow> error + 'qa"
  text_input :: string
  qa_call :: "'qa \<Rightarrow> string \<Rightarrow> error + string \<times> string"

text \<open>
  \<open>tempfile.NamedTemporaryFile(delete=False, suffix=...)\<close>: the file is named
  \<open>dir/tmp<random><suffix>\<close>, and \<open>delete=False\<close> keeps it when it is closed.
\<close>

definition named_temporary_file :: "('b, 'ix, 'qa) env \<Rightarrow> string \<Rightarrow> path" where
  "named_temporary_file e suffix = tmp_dir e @ ''/tmp'' @ tmp_random e suffix @ suffix"

section \<open>Retrieval Index Builder\<close>

definition load_pdf_and_create_index ::
  "('b, 'ix, 'qa) env \<Rightarrow> bytes \<Rightarrow> state \<Rightarrow> (error + 'ix) \<times> state" where
  "load_pdf_and_create_index e file_content st =
     (let temp_file_path_qa = named_temporary_file e ''pdf'';
          st1 = write_file temp_file_path_qa file_content st
      in (case read_file st1 temp_file_path_qa of
            Inl x \<Rightarrow> Inl x
          | Inr data \<Rightarrow> create_index e data,
          st1))"

section \<open>Text Extractor\<close>

definition extract_text_from_pdf :: "('b, 'ix, 'qa) env \<Rightarrow> bytes \<Rightarrow> error + string" where
  "extract_text_from_pdf e file_content =
     (case fitz_pages e file_content of
        Inl x \<Rightarrow> Inl x
      | Inr doc \<Rightarrow> Inr (foldl (\<lambda>text page_text. text @ page_text) [] doc))"

section \<open>Entity Filter\<close>

definition extract_company_name :: "('b, 'ix, 'qa) env \<Rightarrow> string \<Rightarrow> error + string list" where
  "extract_company_name e text =
     (case spacy_ents e text of
        Inl x \<Rightarrow> Inl x
      | Inr ents \<Rightarrow> Inr (map fst (filter (\<lambda>ent. snd ent = ''ORG'') ents)))"

text \<open>
  The pattern of \<open>str.contains\<close> in \<open>main\<close>, a regular expression by pandas' default:
  \<^verbatim>\<open>company|inc.|ltd|enterprise|corporation\<close>
\<close>

definition company_pattern :: "regex" where
  "company_pattern =
     Alt (lit ''company'') (Alt (Cat (lit ''inc'') (Cls Dot)) (Alt (lit ''ltd'')
       (Alt (lit ''enterprise'') (lit ''corporation''))))"

text \<open>
  \<open>filtered_df\<close> and \<open>first_company\<close> of \<open>main\<close>, for a non-empty \<open>company_names\<close>: the rows
  whose lowercased name the pattern is found in, and the first of them or \<open>"Unknown"\<close>.
\<close>

definition filtered_df :: "string list \<Rightarrow> string list" where
  "filtered_df company_names = filter (\<lambda>name. re_search company_pattern (lower name)) company_names"

definition first_company :: "string list \<Rightarrow> string" where
  "first_company company_names =
     (if filtered_df company_names \<noteq> [] then hd (filtered_df company_names) else ''Unknown'')"

section \<open>Table Locator\<close>

definition contains_keywords :: "string \<Rightarrow> string list \<Rightarrow> bool" where
  "contains_keywords text keywords = list_ex (\<lambda>keyword. str_in (lower keyword) (lower text)) keywords"

text \<open>
  The loop over \<open>tables\<close>. Its state is whether \<open>doc\<close> is bound yet, and \<open>keyword_tables\<close>.
  An exception of \<open>fitz\<close> leaves the loop.
\<close>

fun table_loop ::
  "('b, 'ix, 'qa) env \<Rightarrow> state \<Rightarrow> path \<Rightarrow> string list \<Rightarrow> 'b table list \<Rightarrow> bool \<times> grid list
     \<Rightarrow> error + bool \<times> grid list" where
  "table_loop e st temp_file_path keywords [] acc = Inr acc"
| "table_loop e st temp_file_path keywords (t # ts) (doc_bound, keyword_tables) =
     (case read_file st temp_file_path of
        Inl x \<Rightarrow> Inl x
      | Inr data \<Rightarrow>
          (case fitz_clip_text e data (page t - 1) (bbox t) of
             Inl x \<Rightarrow> Inl x
           | Inr page_text \<Rightarrow>
               table_loop e st temp_file_path keywords ts
                 (True, if contains_keywords page_text keywords
                        then keyword_tables @ [df t] else keyword_tables)))"

text \<open>
  The \<open>try\<close> block: after the loop \<open>doc.close()\<close> needs \<open>doc\<close>, which only the loop body
  binds.
\<close>

definition key_tables_try ::
  "('b, 'ix, 'qa) env \<Rightarrow> state \<Rightarrow> path \<Rightarrow> string list \<Rightarrow> error + grid list" where
  "key_tables_try e st temp_file_path keywords =
     (case read_file st temp_file_path of
        Inl x \<Rightarrow> Inl x
      | Inr data \<Rightarrow>
          (case camelot_read_pdf e data of
             Inl x \<Rightarrow> Inl x
           | Inr tables \<Rightarrow>
               (case table_loop e st temp_file_path keywords tables (False, []) of
                  Inl x \<Rightarrow> Inl x
                | Inr (doc_bound, keyword_tables) \<Rightarrow>
                    if doc_bound then Inr keyword_tables else Inl (UnboundLocalError ''doc''))))"

definition extract_key_tables_from_pdf ::
  "('b, 'ix, 'qa) env \<Rightarrow> bytes \<Rightarrow> string list \<Rightarrow> state \<Rightarrow> grid list \<times> state" where
  "extract_key_tables_from_pdf e file_content keywords st =
     (let temp_file_path = named_temporary_file e ''.pdf'';
          st1 = write_file temp_file_path file_content st
      in if temp_file_path \<noteq> [] then
           (case key_tables_try e st1 temp_file_path keywords of
              Inr keyword_tables \<Rightarrow> (keyword_tables, st1)
            | Inl x \<Rightarrow>
                ([], emit [ErrorExc ''An error occurred while reading key tables from PDF: '' x] st1))
         else ([], emit [Error ''Failed to save the uploaded PDF file.''] st1))"

section \<open>The page: \<open>main\<close>\<close>

definition table_labels :: "string list" where
  "table_labels = [''Consolidated Statements of Earnings'', ''Consolidated Balance Sheets'',
                   ''Consolidated Statements of Cash Flows'']"

definition keywords_of_main :: "string list" where
  "keywords_of_main =
     [''Earnings before provision for taxes'', ''total current assets'',
      ''total current liabilities'', ''net cash provided by operating activities'',
      ''net cash used in investing activities'']"

text \<open>
  What \<open>main\<close> shows for \<open>dataframes\<close>: the loop runs over \<open>enumerate(dataframes[:3])\<close> and
  picks \<open>table_labels[i]\<close> when \<open>i < len(table_labels)\<close>, \<open>f"Table {i+1}"\<close> otherwise.
\<close>

definition show_tables :: "grid list \<Rightarrow> ui list" where
  "show_tables dataframes =
     (if dataframes \<noteq> [] then
        concat (map (\<lambda>(i, d).
                  [Subheader (if i < length table_labels then table_labels ! i
                              else ''Table '' @ str_nat (i + 1)),
                   Dataframe d])
                (enumerate 0 (take 3 dataframes)))
      else [Write ''No tables matching the specified keywords extracted.''])"

text \<open>
  The expander "Company Name \& Period Ending". Neither call has a handler of its own: an
  exception leaves the section, with what was shown so far.
\<close>

definition company_section ::
  "('b, 'ix, 'qa) env \<Rightarrow> string \<Rightarrow> state \<Rightarrow> (error + unit) \<times> state" where
  "company_section e text st =
     (let st1 = emit [Expander ''Company Name & Period Ending''] st in
      case extract_company_name e text of
        Inl x \<Rightarrow> (Inl x, st1)
      | Inr company_names \<Rightarrow>
          (let st2 = (if company_names \<noteq> []
                      then emit [Write ('' - '' @ title (first_company company_names))] st1
                      else emit [Write ''No company names found in the document.''] st1)
           in case extract_specific_dates text of
                Inl x \<Rightarrow> (Inl x, st2)
              | Inr doc_period \<Rightarrow>
                  (Inr (),
                   if doc_period \<noteq> [] then emit [Write ('' - '' @ doc_period)] st2
                   else emit [Write ''No specific dates found in the document.''] st2)))"

text \<open>The expander "Key Financial Statements".\<close>

definition tables_section :: "('b, 'ix, 'qa) env \<Rightarrow> bytes \<Rightarrow> state \<Rightarrow> state" where
  "tables_section e file_content st =
     (let st1 = emit [Expander ''Key Financial Statements''] st;
          (dataframes, st2) = extract_key_tables_from_pdf e file_content keywords_of_main st1
      in emit (show_tables dataframes) st2)"

text \<open>The inner \<open>try\<close>: the question-answering section, with its own handler.\<close>

definition qa_try :: "('b, 'ix, 'qa) env \<Rightarrow> bytes \<Rightarrow> state \<Rightarrow> (error + unit) \<times> state" where
  "qa_try e file_content st =
     (case load_pdf_and_create_index e file_content st of
        (Inl x, st1) \<Rightarrow> (Inl x, st1)
      | (Inr vectorstore_index, st1) \<Rightarrow>
          (case retrieval_qa e vectorstore_index of
             Inl x \<Rightarrow> (Inl x, st1)
           | Inr qa \<Rightarrow>
               (let st2 = emit [Expander ''Q & A with uploaded Financial Statement'',
                                TextInput ''Ask a question about the financial report''] st1;
                    query = text_input e
                in if query \<noteq> [] then
                     (case qa_call e qa query of
                        Inl x \<Rightarrow> (Inl x, st2)
                      | Inr (result, source_documents) \<Rightarrow>
                          (Inr (), emit [Write (''Answer: '' @ result),
                                         Write (''Source Documents: '' @ source_documents)] st2))
                   else (Inr (), st2))))"

definition qa_section :: "('b, 'ix, 'qa) env \<Rightarrow> bytes \<Rightarrow> state \<Rightarrow> state" where
  "qa_section e file_content st =
     (case qa_try e file_content st of
        (Inl x, st1) \<Rightarrow> emit [ErrorExc ''An error occurred while executing QA Section: '' x] st1
      | (Inr u, st1) \<Rightarrow> st1)"

definition key_points_head :: "ui list" where
  "key_points_head =
     [Write ''========================================================================================'',
      Subheader ''Key Points on Document Uploaded:'']"

text \<open>The outer \<open>try\<close> of \<open>main\<close>.\<close>

definition main_try :: "('b, 'ix, 'qa) env \<Rightarrow> bytes \<Rightarrow> state \<Rightarrow> (error + unit) \<times> state" where
  "main_try e file_content st =
     (case extract_text_from_pdf e file_content of
        Inl x \<Rightarrow> (Inl x, st)
      | Inr text \<Rightarrow>
          (let st1 = emit key_points_head st
           in case company_section e text st1 of
                (Inl x, st2) \<Rightarrow> (Inl x, st2)
              | (Inr u, st2) \<Rightarrow>
                  (Inr (), qa_section e file_content (tables_section e file_content st2))))"

definition page_head :: "ui list" where
  "page_head =
     [Title ''Financial Statement Analysis of Form 10-K & 10-Q Reports'',
      Sidebar (Header ''Basic Information:''),
      Sidebar (Write ''1. Form 10-K is a Annual Report & Audited Financial Statements which is filed every Fiscal Year''),
      Sidebar (Write ''2. Form 10-Q is a Quarterly Report & Unaudited Financial Statements filed every Fiscal Quarter''),
      Sidebar (Write ''3. Both Forms are filed by Public Co. to US SEC about their Financial Performance''),
      Sidebar (Write ''----------------------------''),
      Sidebar (Header ''About Model:''),
      Sidebar (Write ''As you upload Financial Statements, model identifies Company Name, Period Ending and extracts 3 important Financials i.e.,''),
      Sidebar (Write ''i) Earnings Statement''),
      Sidebar (Write ''ii) Balance Sheet''),
      Sidebar (Write ''iii) Cash Flow Statement'')]"

definition main :: "('b, 'ix, 'qa) env \<Rightarrow> state \<Rightarrow> state" where
  "main e st =
     (let st0 = emit page_head st in
      case uploaded e of
        None \<Rightarrow> emit [Image ''Financial_Statement_Format.PNG'' ''Example Document''] st0
      | Some file_content \<Rightarrow>
          (case main_try e file_content st0 of
             (Inl x, st1) \<Rightarrow> emit [ErrorExc ''An error occurred: '' x] st1
           | (Inr u, st1) \<Rightarrow> st1))"

section \<open>A sample run\<close>

text \<open>
  One upload, used to run the definitions on concrete data: a filing of two pages in which
  camelot finds three tables, the second of them with no keyword in its box.
\<close>

definition sample_bytes :: bytes where
  "sample_bytes = [0x25, 0x50, 0x44, 0x46]"

definition sample_tables :: "nat table list" where
  "sample_tables =
     [\<lparr>page = 1, bbox = 0, df = [[''Net revenue'', ''7,204'']]\<rparr>,
      \<lparr>page = 1, bbox = 1, df = [[''Note'', ''1'']]\<rparr>,
      \<lparr>page = 2, bbox = 2, df = [[''Cash'', ''2,679'']]\<rparr>]"

definition sample_env :: "(nat, nat, nat) env" where
  "sample_env =
     \<lparr>uploaded = Some sample_bytes,
      tmp_dir = ''/tmp'',
      tmp_random = (\<lambda>suffix. ''k3x9'' @ (if suffix = ''pdf'' then ''a'' else ''b'')),
      fitz_pages = (\<lambda>data. Inr [''Acme Corporation Form 10-Q '',
                                  ''for the quarterly period ended: March 31, 2024'']),
      spacy_ents = (\<lambda>text. Inr [(''Form 10-Q'', ''LAW''), (''Acme Corporation'', ''ORG'')]),
      camelot_read_pdf = (\<lambda>data. Inr sample_tables),
      fitz_clip_text = (\<lambda>data i b.
         Inr (if b = 0 then ''Earnings before provision for taxes 512''
              else if b = 1 then ''Note 1''
              else ''TOTAL CURRENT ASSETS 18,948'')),
      create_index = (\<lambda>data. Inr 0),
      retrieval_qa = (\<lambda>ix. Inr 0),
      text_input = ''What are total current assets?'',
      qa_call = (\<lambda>qa query. Inr (''18,948'', ''[Document(page 2)]''))\<rparr>"

text \<open>
  The same upload when spaCy refuses the text, when the text has no period statement, and
  when both camelot and the index builder fail.
\<close>

definition sample_env_ner_fails :: "(nat, nat, nat) env" where
  "sample_env_ner_fails =
     sample_env\<lparr>spacy_ents := \<lambda>text. Inl (LibraryError ''ValueError: text exceeds nlp.max_length'')\<rparr>"

definition sample_env_no_period :: "(nat, nat, nat) env" where
  "sample_env_no_period =
     sample_env\<lparr>fitz_pages := \<lambda>data. Inr [''Acme Corporation Form 10-Q '', ''Commission file 1-2345'']\<rparr>"

definition sample_env_tables_qa_fail :: "(nat, nat, nat) env" where
  "sample_env_tables_qa_fail =
     sample_env\<lparr>camelot_read_pdf := \<lambda>data. Inl (LibraryError ''camelot''),
                create_index := \<lambda>data. Inl (LibraryError ''openai'')\<rparr>"

definition sample_state :: state where
  "sample_state = \<lparr>files = Map.empty, screen = []\<rparr>"

section \<open>Text Extractor: the page texts, concatenated\<close>

lemma foldl_append_concat:
  "foldl (\<lambda>text page_text. text @ page_text) acc doc = acc @ concat doc"
  by (induction doc arbitrary: acc) simp_all

text \<open>
  Claim C7. A document that \<open>fitz\<close> opens yields the concatenation of its page texts in page
  order, without an error. A document with further pages yields that text followed by the
  texts of the further pages, so the length of the output does not decrease with the number
  of pages; and a document whose pages are all empty, one of no page at all in particular,
  yields the empty string.
\<close>

theorem text_extractor_concat:
  assumes "fitz_pages e c = Inr doc" and "fitz_pages e c' = Inr (doc @ extra)"
  shows "extract_text_from_pdf e c = Inr (concat doc)
       \<and> extract_text_from_pdf e c' = Inr (concat doc @ concat extra)
       \<and> length (concat doc) \<le> length (concat doc @ concat extra)
       \<and> ((\<forall>p \<in> set doc. p = []) \<longrightarrow> extract_text_from_pdf e c = Inr [])"
  using assms by (simp add: extract_text_from_pdf_def foldl_append_concat)

theorem text_extractor_concat_witness:
  "fitz_pages (sample_env\<lparr>fitz_pages := \<lambda>data. Inr (replicate (length data) [])\<rparr>) [1, 2]
     = Inr [[], []]
   \<and> extract_text_from_pdf (sample_env\<lparr>fitz_pages := \<lambda>data. Inr (replicate (length data) [])\<rparr>)
        [1, 2] = Inr []
   \<and> fitz_pages (sample_env\<lparr>fitz_pages := \<lambda>data. Inr (map (\<lambda>b. ''page '') data)\<rparr>) [1, 2]
     = Inr [''page '', ''page '']
   \<and> extract_text_from_pdf (sample_env\<lparr>fitz_pages := \<lambda>data. Inr (map (\<lambda>b. ''page '') data)\<rparr>)
        [1, 2, 3] = Inr ''page page page ''"
proof -
  have a: "fitz_pages (sample_env\<lparr>fitz_pages := \<lambda>data. Inr (replicate (length data) [])\<rparr>) [1, 2]
     = Inr [[], []]"
    by (simp add: numeral_2_eq_2)
  have a': "fitz_pages (sample_env\<lparr>fitz_pages := \<lambda>data. Inr (replicate (length data) [])\<rparr>) [1, 2, 3]
     = Inr ([[], []] @ [[]])"
    by (simp add: numeral_3_eq_3)
  have b: "fitz_pages (sample_env\<lparr>fitz_pages := \<lambda>data. Inr (map (\<lambda>b. ''page '') data)\<rparr>) [1, 2]
     = Inr [''page '', ''page '']"
    by simp
  have b': "fitz_pages (sample_env\<lparr>fitz_pages := \<lambda>data. Inr (map (\<lambda>b. ''page '') data)\<rparr>) [1, 2, 3]
     = Inr ([''page '', ''page ''] @ [''page ''])"
    by simp
  show ?thesis
    using a b text_extractor_concat [OF a a'] text_extractor_concat [OF b b'] by simp
qed

section \<open>Table Locator: which tables are kept\<close>

lemma read_written: "read_file (write_file p d st) p = Inr d"
  by (simp add: read_file_def write_file_def)

lemma tmp_name_nonempty: "named_temporary_file e suffix \<noteq> []"
  by (simp add: named_temporary_file_def)

lemma table_loop_ok:
  "read_file st p = Inr data \<Longrightarrow>
   \<forall>t \<in> set ts. \<exists>s. fitz_clip_text e data (page t - 1) (bbox t) = Inr s \<Longrightarrow>
   table_loop e st p kws ts (b, acc) =
     Inr (b \<or> ts \<noteq> [],
          acc @ map df (filter (\<lambda>t. case fitz_clip_text e data (page t - 1) (bbox t) of
                                       Inl x \<Rightarrow> False | Inr s \<Rightarrow> contains_keywords s kws) ts))"
proof (induction ts arbitrary: b acc)
  case Nil
  then show ?case by simp
next
  case (Cons t ts)
  from Cons.prems(2) obtain s where s: "fitz_clip_text e data (page t - 1) (bbox t) = Inr s"
    by auto
  from Cons.prems(2)
  have rest: "\<forall>t \<in> set ts. \<exists>s. fitz_clip_text e data (page t - 1) (bbox t) = Inr s"
    by simp
  show ?case
    using Cons.IH [OF Cons.prems(1) rest] Cons.prems(1) s by simp
qed

lemma table_loop_no_keywords:
  "table_loop e st p [] ts (b, acc) = Inr (b', out) \<Longrightarrow> out = acc"
proof (induction ts arbitrary: b acc)
  case Nil
  then show ?case by simp
next
  case (Cons t ts)
  then show ?case
    by (auto simp: contains_keywords_def split: sum.splits)
qed

lemma starts_with_iff: "starts_with a b \<longleftrightarrow> (\<exists>s. b = a @ s)"
  by (induction a b rule: starts_with.induct) auto

lemma str_in_iff: "str_in a b \<longleftrightarrow> (\<exists>p s. b = p @ a @ s)"
proof (induction b)
  case Nil
  then show ?case by simp
next
  case (Cons y ys)
  show ?case
  proof
    assume "str_in a (y # ys)"
    then consider "starts_with a (y # ys)" | "str_in a ys" by auto
    then show "\<exists>p s. y # ys = p @ a @ s"
    proof cases
      case 1
      then obtain s where "y # ys = a @ s" by (auto simp: starts_with_iff)
      then have "y # ys = [] @ a @ s" by simp
      then show ?thesis by blast
    next
      case 2
      with Cons obtain p s where "ys = p @ a @ s" by blast
      then have "y # ys = (y # p) @ a @ s" by simp
      then show ?thesis by blast
    qed
  next
    assume "\<exists>p s. y # ys = p @ a @ s"
    then obtain p s where ps: "y # ys = p @ a @ s" by blast
    show "str_in a (y # ys)"
    proof (cases p)
      case Nil
      with ps have "starts_with a (y # ys)" by (auto simp: starts_with_iff)
      then show ?thesis by simp
    next
      case (Cons z p')
      with ps have "ys = p' @ a @ s" by simp
      with Cons.IH have "str_in a ys" by blast
      then show ?thesis by simp
    qed
  qed
qed

lemma contains_keywords_iff:
  "contains_keywords text kws \<longleftrightarrow>
     (\<exists>k \<in> set kws. \<exists>p s. lower text = p @ lower k @ s)"
  by (simp add: contains_keywords_def list_ex_iff str_in_iff)

text \<open>
  Claim C1. Take the tables camelot detects in a document (none when detection fails), and
  let the text within the bounding box of each be extracted. Then the Table Locator returns,
  in detection order, the data grids of exactly the tables whose text contains a keyword,
  both lowercased: a grid is in the output if and only if it is the grid of such a table.
  With no keyword at all the result is empty, whatever the libraries do. A text contains a
  keyword when the lowercased keyword occurs in the lowercased text as a contiguous run.
\<close>

theorem table_locator_keeps_keyword_tables:
  assumes "\<forall>t \<in> set (case camelot_read_pdf e c of Inl x \<Rightarrow> [] | Inr tables \<Rightarrow> tables).
              \<exists>s. fitz_clip_text e c (page t - 1) (bbox t) = Inr s"
  shows "fst (extract_key_tables_from_pdf e c kws st) =
           map df (filter (\<lambda>t. case fitz_clip_text e c (page t - 1) (bbox t) of
                                  Inl x \<Rightarrow> False | Inr s \<Rightarrow> contains_keywords s kws)
                     (case camelot_read_pdf e c of Inl x \<Rightarrow> [] | Inr tables \<Rightarrow> tables))
       \<and> (\<forall>g. g \<in> set (fst (extract_key_tables_from_pdf e c kws st)) \<longleftrightarrow>
               (\<exists>t \<in> set (case camelot_read_pdf e c of Inl x \<Rightarrow> [] | Inr tables \<Rightarrow> tables).
                  df t = g \<and>
                  (\<exists>s. fitz_clip_text e c (page t - 1) (bbox t) = Inr s \<and> contains_keywords s kws)))
       \<and> fst (extract_key_tables_from_pdf e c [] st) = []
       \<and> (\<forall>text. contains_keywords text kws \<longleftrightarrow>
               (\<exists>k \<in> set kws. \<exists>p s. lower text = p @ lower k @ s))"
proof -
  have eq: "fst (extract_key_tables_from_pdf e c kws st) =
           map df (filter (\<lambda>t. case fitz_clip_text e c (page t - 1) (bbox t) of
                                  Inl x \<Rightarrow> False | Inr s \<Rightarrow> contains_keywords s kws)
                     (case camelot_read_pdf e c of Inl x \<Rightarrow> [] | Inr tables \<Rightarrow> tables))"
  proof (cases "camelot_read_pdf e c")
    case (Inl x)
    then show ?thesis
      by (simp add: extract_key_tables_from_pdf_def key_tables_try_def Let_def read_written
          tmp_name_nonempty)
  next
    case (Inr tables)
    with assms
    have all: "\<forall>t \<in> set tables. \<exists>s. fitz_clip_text e c (page t - 1) (bbox t) = Inr s"
      by simp
    show ?thesis
      using Inr
      by (simp add: extract_key_tables_from_pdf_def key_tables_try_def Let_def read_written
          tmp_name_nonempty table_loop_ok [OF read_written all])
  qed
  have iff: "\<forall>g. g \<in> set (fst (extract_key_tables_from_pdf e c kws st)) \<longleftrightarrow>
               (\<exists>t \<in> set (case camelot_read_pdf e c of Inl x \<Rightarrow> [] | Inr tables \<Rightarrow> tables).
                  df t = g \<and>
                  (\<exists>s. fitz_clip_text e c (page t - 1) (bbox t) = Inr s \<and> contains_keywords s kws))"
  proof -
    have P: "\<And>t. (case fitz_clip_text e c (page t - 1) (bbox t) of
                    Inl x \<Rightarrow> False | Inr s \<Rightarrow> contains_keywords s kws) =
                 (\<exists>s. fitz_clip_text e c (page t - 1) (bbox t) = Inr s \<and> contains_keywords s kws)"
      by (simp split: sum.split)
    show ?thesis
      unfolding eq P by (simp add: image_iff) blast
  qed
  have none: "fst (extract_key_tables_from_pdf e c [] st) = []"
    by (auto simp: extract_key_tables_from_pdf_def key_tables_try_def Let_def read_written
        tmp_name_nonempty split: sum.splits dest: table_loop_no_keywords)
  have sub: "\<forall>text. contains_keywords text kws \<longleftrightarrow>
               (\<exists>k \<in> set kws. \<exists>p s. lower text = p @ lower k @ s)"
    by (simp add: contains_keywords_iff)
  show ?thesis
    by (intro conjI; fact)
qed

theorem table_locator_keeps_keyword_tables_witness:
  "fst (extract_key_tables_from_pdf sample_env sample_bytes keywords_of_main sample_state) =
     [[[''Net revenue'', ''7,204'']], [[''Cash'', ''2,679'']]]"
proof -
  have h: "\<forall>t \<in> set (case camelot_read_pdf sample_env sample_bytes of
                         Inl x \<Rightarrow> [] | Inr tables \<Rightarrow> tables).
      \<exists>s. fitz_clip_text sample_env sample_bytes (page t - 1) (bbox t) = Inr s"
    by (simp add: sample_env_def)
  have "fst (extract_key_tables_from_pdf sample_env sample_bytes keywords_of_main sample_state) =
     map df (filter (\<lambda>t. case fitz_clip_text sample_env sample_bytes (page t - 1) (bbox t) of
                            Inl x \<Rightarrow> False | Inr s \<Rightarrow> contains_keywords s keywords_of_main)
               (case camelot_read_pdf sample_env sample_bytes of
                  Inl x \<Rightarrow> [] | Inr tables \<Rightarrow> tables))"
    using table_locator_keeps_keyword_tables [OF h] by blast
  also have "\<dots> = [[[''Net revenue'', ''7,204'']], [[''Cash'', ''2,679'']]]"
    by code_simp
  finally show ?thesis .
qed

text \<open>
  Claim C9. When camelot reads the document and finds no table, the loop body never runs, so
  \<open>doc\<close> is unbound at \<open>doc.close()\<close>: the handler shows the error message made from that
  exception and the function returns the empty list.
\<close>

theorem no_tables_error:
  assumes "camelot_read_pdf e c = Inr []"
  shows "extract_key_tables_from_pdf e c kws st =
           ([], emit [ErrorExc ''An error occurred while reading key tables from PDF: ''
                        (UnboundLocalError ''doc'')]
                  (write_file (named_temporary_file e ''.pdf'') c st))"
  using assms
  by (simp add: extract_key_tables_from_pdf_def key_tables_try_def Let_def read_written
      tmp_name_nonempty)

theorem no_tables_error_witness:
  "camelot_read_pdf (sample_env\<lparr>camelot_read_pdf := \<lambda>data. Inr []\<rparr>) sample_bytes = Inr []
   \<and> fst (extract_key_tables_from_pdf (sample_env\<lparr>camelot_read_pdf := \<lambda>data. Inr []\<rparr>)
            sample_bytes keywords_of_main sample_state) = []
   \<and> screen (snd (extract_key_tables_from_pdf (sample_env\<lparr>camelot_read_pdf := \<lambda>data. Inr []\<rparr>)
            sample_bytes keywords_of_main sample_state)) =
       [ErrorExc ''An error occurred while reading key tables from PDF: ''
          (UnboundLocalError ''doc'')]"
proof -
  have h: "camelot_read_pdf (sample_env\<lparr>camelot_read_pdf := \<lambda>data. Inr []\<rparr>) sample_bytes = Inr []"
    by simp
  show ?thesis
    using h no_tables_error [OF h, of keywords_of_main sample_state]
    by (simp add: emit_def write_file_def sample_state_def)
qed

section \<open>Period Extractor: what the first match gives\<close>









lemma lead_zero [simp]: "lead k (Some 0) s = 0"
  by (cases s) simp_all

lemma take_length_diff [simp]: "take (length (xs @ t) - length t) (xs @ t) = xs"
  by simp









text \<open>
  Claim C2, on the code. A text in which the pattern has no match does not give an empty
  value: \<open>re.findall\<close> returns the empty list, the frame made from it has no column 0, and
  \<open>df_period[0]\<close> raises \<open>KeyError\<close>.
\<close>

theorem period_not_found_raises:
  "extract_specific_dates ''Annual report of Acme Corporation'' = Inl (KeyError ''0'')"
  by code_simp

section \<open>Entity Filter: the marker pattern\<close>

text \<open>
  Claim C6, on the code. The markers are given to \<open>str.contains\<close> as a regular expression, in
  which the dot of \<open>inc.\<close> stands for any character: "Princeton University" has no marker as
  a literal substring, and is kept (\<open>inc\<close> followed by \<open>e\<close>) and reported.
\<close>

theorem inc_dot_is_a_wildcard:
  "filtered_df [''Princeton University''] = [''Princeton University'']
   \<and> first_company [''Princeton University''] = ''Princeton University''
   \<and> \<not> str_in ''inc.'' (lower ''Princeton University'')"
  by code_simp


section \<open>Temporary files\<close>

lemma files_emit: "files (emit es st) = files st"
  by (simp add: emit_def)

text \<open>
  Claim C8, amended. Neither the Table Locator nor the Retrieval Index Builder deletes the
  temporary file it creates (\<open>delete=False\<close>, and no removal anywhere): on every exit path the
  file is still there when the operation returns, holding the uploaded bytes.
\<close>

theorem temp_files_stay:
  "files (snd (extract_key_tables_from_pdf e c kws st)) (named_temporary_file e ''.pdf'') = Some c
   \<and> files (snd (load_pdf_and_create_index e c st)) (named_temporary_file e ''pdf'') = Some c"
  by (simp add: extract_key_tables_from_pdf_def load_pdf_and_create_index_def Let_def
      files_emit write_file_def tmp_name_nonempty split: sum.split)

theorem temp_files_stay_witness:
  "files (snd (extract_key_tables_from_pdf (sample_env\<lparr>camelot_read_pdf := \<lambda>data. Inl (LibraryError ''camelot'')\<rparr>)
                 [1, 2] [] sample_state)) ''/tmp/tmpk3x9b.pdf'' = Some [1, 2]
   \<and> files (snd (load_pdf_and_create_index (sample_env\<lparr>create_index := \<lambda>data. Inl (LibraryError ''openai'')\<rparr>)
                 [1, 2] sample_state)) ''/tmp/tmpk3x9apdf'' = Some [1, 2]"
  using temp_files_stay [of "sample_env\<lparr>camelot_read_pdf := \<lambda>data. Inl (LibraryError ''camelot'')\<rparr>"
                            "[1, 2]" "[]" sample_state]
        temp_files_stay [of "sample_env\<lparr>create_index := \<lambda>data. Inl (LibraryError ''openai'')\<rparr>"
                            "[1, 2]" "[]" sample_state]
  by (simp add: named_temporary_file_def sample_env_def)

text \<open>
  The claim as stated fails: after either operation on the sample upload the temporary file
  it created, absent before, is present.
\<close>

theorem temp_file_deleted_counterexample:
  "named_temporary_file sample_env ''.pdf'' = ''/tmp/tmpk3x9b.pdf''
   \<and> files sample_state ''/tmp/tmpk3x9b.pdf'' = None
   \<and> files (snd (extract_key_tables_from_pdf sample_env sample_bytes keywords_of_main sample_state))
        ''/tmp/tmpk3x9b.pdf'' = Some sample_bytes
   \<and> named_temporary_file sample_env ''pdf'' = ''/tmp/tmpk3x9apdf''
   \<and> files (snd (load_pdf_and_create_index sample_env sample_bytes sample_state))
        ''/tmp/tmpk3x9apdf'' = Some sample_bytes"
proof -
  have n1: "named_temporary_file sample_env ''.pdf'' = ''/tmp/tmpk3x9b.pdf''"
    by (simp add: named_temporary_file_def sample_env_def)
  have n2: "named_temporary_file sample_env ''pdf'' = ''/tmp/tmpk3x9apdf''"
    by (simp add: named_temporary_file_def sample_env_def)
  have f0: "files sample_state ''/tmp/tmpk3x9b.pdf'' = None"
    by (simp add: sample_state_def)
  have f1: "files (snd (extract_key_tables_from_pdf sample_env sample_bytes keywords_of_main sample_state))
        (named_temporary_file sample_env ''.pdf'') = Some sample_bytes"
    by (simp add: extract_key_tables_from_pdf_def Let_def
      files_emit write_file_def tmp_name_nonempty split: sum.split)
  have f2: "files (snd (load_pdf_and_create_index sample_env sample_bytes sample_state))
        (named_temporary_file sample_env ''pdf'') = Some sample_bytes"
    by (simp add: load_pdf_and_create_index_def Let_def write_file_def)
  from n1 n2 f0 f1 f2 show ?thesis by simp
qed

section \<open>Labels of the tables shown\<close>

text \<open>
  Claim C4, amended. Of a non-empty sequence of retained grids, the first three are shown, in
  order, under "Consolidated Statements of Earnings", "Consolidated Balance Sheets" and
  "Consolidated Statements of Cash Flows"; the loop runs over \<open>dataframes[:3]\<close>, so a grid
  beyond the third is not shown.
\<close>

theorem show_tables_zip:
  assumes "dataframes \<noteq> []"
  shows "show_tables dataframes =
           concat (map (\<lambda>(label, d). [Subheader label, Dataframe d]) (zip table_labels dataframes))"
proof -
  consider a where "dataframes = [a]" | a b where "dataframes = [a, b]"
    | a b c rest where "dataframes = a # b # c # rest"
    using assms by (cases dataframes; cases "tl dataframes"; cases "tl (tl dataframes)") auto
  then show ?thesis
    by cases (simp_all add: show_tables_def table_labels_def enumerate_simps)
qed

theorem show_tables_zip_witness:
  "show_tables [[[''a'']], [[''b'']]] =
     [Subheader ''Consolidated Statements of Earnings'', Dataframe [[''a'']],
      Subheader ''Consolidated Balance Sheets'', Dataframe [[''b'']]]"
proof -
  have h: "[[[''a'']], [[''b'']]] \<noteq> ([] :: grid list)" by simp
  show ?thesis
    using show_tables_zip [OF h] by (simp add: table_labels_def)
qed

text \<open>
  The claim as stated fails: of four retained grids the fourth is not shown, under
  "Table 4" or any other label.
\<close>

theorem tables_beyond_third_counterexample:
  "show_tables [[[''a'']], [[''b'']], [[''c'']], [[''d'']]] =
     [Subheader ''Consolidated Statements of Earnings'', Dataframe [[''a'']],
      Subheader ''Consolidated Balance Sheets'', Dataframe [[''b'']],
      Subheader ''Consolidated Statements of Cash Flows'', Dataframe [[''c'']]]
   \<and> Dataframe [[''d'']] \<notin> set (show_tables [[[''a'']], [[''b'']], [[''c'']], [[''d'']]])
   \<and> Subheader ''Table 4'' \<notin> set (show_tables [[[''a'']], [[''b'']], [[''c'']], [[''d'']]])"
  by (simp add: show_tables_def table_labels_def enumerate_simps)

section \<open>The sections of the page and their failures\<close>

lemma table_loop_same_file:
  "read_file s p = read_file s' p \<Longrightarrow>
   table_loop e s p kws ts acc = table_loop e s' p kws ts acc"
proof (induction ts arbitrary: acc)
  case Nil
  then show ?case by simp
next
  case (Cons t ts)
  then show ?case by (cases acc) (simp split: sum.splits)
qed

lemma key_tables_try_written:
  "key_tables_try e (write_file p c s) p kws = key_tables_try e (write_file p c s') p kws"
  using table_loop_same_file [of "write_file p c s" p "write_file p c s'" e kws]
  by (cases "camelot_read_pdf e c") (simp_all add: key_tables_try_def read_written)

lemma screen_emit: "screen (emit es s) = screen s @ es"
  by (simp add: emit_def)

lemma screen_write_file: "screen (write_file p d s) = screen s"
  by (simp add: write_file_def)

lemma files_write_file: "files (write_file p d s) = (files s)(p \<mapsto> d)"
  by (simp add: write_file_def)

lemmas state_simps = screen_emit screen_write_file files_write_file files_emit

lemma tables_section_appends:
  "\<exists>T. T \<noteq> []
     \<and> (\<forall>s. screen (tables_section e c s) = screen s @ T)
     \<and> (\<forall>s. files (tables_section e c s) = (files s)(named_temporary_file e ''.pdf'' \<mapsto> c))
     \<and> (\<forall>x. camelot_read_pdf e c = Inl x \<longrightarrow>
           T = [Expander ''Key Financial Statements'',
                ErrorExc ''An error occurred while reading key tables from PDF: '' x,
                Write ''No tables matching the specified keywords extracted.''])"
proof -
  obtain r where r: "\<And>s. key_tables_try e (write_file (named_temporary_file e ''.pdf'') c s)
                         (named_temporary_file e ''.pdf'') keywords_of_main = r"
    using key_tables_try_written by metis
  have fail: "r = Inl x" if "camelot_read_pdf e c = Inl x" for x
    using that r [of undefined, symmetric] by (simp add: key_tables_try_def read_written)
  show ?thesis
  proof (cases r)
    case (Inl x)
    have "\<forall>s. screen (tables_section e c s) = screen s @
             [Expander ''Key Financial Statements'',
              ErrorExc ''An error occurred while reading key tables from PDF: '' x,
              Write ''No tables matching the specified keywords extracted.'']"
      by (simp add: tables_section_def extract_key_tables_from_pdf_def Let_def r Inl
          tmp_name_nonempty state_simps show_tables_def)
    moreover have "\<forall>s. files (tables_section e c s) = (files s)(named_temporary_file e ''.pdf'' \<mapsto> c)"
      by (simp add: tables_section_def extract_key_tables_from_pdf_def Let_def r Inl
          tmp_name_nonempty state_simps)
    ultimately show ?thesis using fail Inl by auto
  next
    case (Inr ds)
    have "\<forall>s. screen (tables_section e c s) = screen s @
             (Expander ''Key Financial Statements'' # show_tables ds)"
      by (simp add: tables_section_def extract_key_tables_from_pdf_def Let_def r Inr
          tmp_name_nonempty state_simps)
    moreover have "\<forall>s. files (tables_section e c s) = (files s)(named_temporary_file e ''.pdf'' \<mapsto> c)"
      by (simp add: tables_section_def extract_key_tables_from_pdf_def Let_def r Inr
          tmp_name_nonempty state_simps)
    ultimately show ?thesis using fail Inr by auto
  qed
qed

lemma qa_section_appends:
  "\<exists>Q. Q \<noteq> []
     \<and> (\<forall>s. screen (qa_section e c s) = screen s @ Q)
     \<and> (\<forall>x. create_index e c = Inl x \<longrightarrow>
           Q = [ErrorExc ''An error occurred while executing QA Section: '' x])"
proof -
  define Q where "Q = screen (qa_section e c \<lparr>files = Map.empty, screen = []\<rparr>)"
  have a: "\<forall>s. screen (qa_section e c s) = screen s @ Q"
    unfolding Q_def
    by (simp add: qa_section_def qa_try_def load_pdf_and_create_index_def Let_def read_written
        state_simps split: sum.split prod.split)
  have b: "Q \<noteq> []"
    unfolding Q_def
    by (simp add: qa_section_def qa_try_def load_pdf_and_create_index_def Let_def read_written
        state_simps split: sum.split prod.split)
  have c: "\<forall>x. create_index e c = Inl x \<longrightarrow>
           Q = [ErrorExc ''An error occurred while executing QA Section: '' x]"
    unfolding Q_def
    by (simp add: qa_section_def qa_try_def load_pdf_and_create_index_def Let_def read_written
        state_simps)
  from a b c show ?thesis by blast
qed



lemma main_after_metadata:
  assumes "uploaded e = Some c" and "extract_text_from_pdf e c = Inr text"
    and "company_section e text (emit key_points_head (emit page_head st)) = (Inr (), m)"
  shows "main e st = qa_section e c (tables_section e c m)"
  using assms by (simp add: main_def main_try_def Let_def)

lemma main_ner_fails:
  assumes "uploaded e = Some c" and "extract_text_from_pdf e c = Inr text"
    and "extract_company_name e text = Inl x"
  shows "main e st =
           emit [ErrorExc ''An error occurred: '' x]
             (emit [Expander ''Company Name & Period Ending'']
               (emit key_points_head (emit page_head st)))"
  using assms by (simp add: main_def main_try_def company_section_def Let_def)


text \<open>
  Claim C3, amended. For an upload whose text is extracted, the table section and the
  question-answering section each add a fixed, non-empty run of items to the screen,
  whatever state the earlier sections left: a failure of table detection shows its error and
  the no-tables line, a failure of the index builder shows the one error of its handler.
  When the company and period section completes, the page shows its lines, then the items
  of the table section, then those of the question-answering section, so a failure in either
  of these two leaves the other on the screen. A failure raised while the company names are
  extracted is not local: the outer handler shows it, and neither later section runs (no
  temporary file is even created).
\<close>

theorem table_and_qa_failures_are_local:
  assumes "uploaded e = Some c" and "extract_text_from_pdf e c = Inr text"
  shows "\<exists>T Q. T \<noteq> [] \<and> Q \<noteq> []
     \<and> (\<forall>s. screen (tables_section e c s) = screen s @ T)
     \<and> (\<forall>s. screen (qa_section e c s) = screen s @ Q)
     \<and> (\<forall>x. camelot_read_pdf e c = Inl x \<longrightarrow>
           T = [Expander ''Key Financial Statements'',
                ErrorExc ''An error occurred while reading key tables from PDF: '' x,
                Write ''No tables matching the specified keywords extracted.''])
     \<and> (\<forall>x. create_index e c = Inl x \<longrightarrow>
           Q = [ErrorExc ''An error occurred while executing QA Section: '' x])
     \<and> (\<forall>st m. company_section e text (emit key_points_head (emit page_head st)) = (Inr (), m) \<longrightarrow>
           screen (main e st) = screen m @ T @ Q)
     \<and> (\<forall>st x. extract_company_name e text = Inl x \<longrightarrow>
           screen (main e st) =
             screen st @ page_head @ key_points_head @
               [Expander ''Company Name & Period Ending'', ErrorExc ''An error occurred: '' x]
           \<and> files (main e st) = files st)"
proof -
  from tables_section_appends [of e c] obtain T
    where T1: "T \<noteq> []" and T2: "\<forall>s. screen (tables_section e c s) = screen s @ T"
      and T3: "\<forall>x. camelot_read_pdf e c = Inl x \<longrightarrow>
           T = [Expander ''Key Financial Statements'',
                ErrorExc ''An error occurred while reading key tables from PDF: '' x,
                Write ''No tables matching the specified keywords extracted.'']"
    by blast
  from qa_section_appends [of e c] obtain Q
    where Q1: "Q \<noteq> []" and Q2: "\<forall>s. screen (qa_section e c s) = screen s @ Q"
      and Q3: "\<forall>x. create_index e c = Inl x \<longrightarrow>
           Q = [ErrorExc ''An error occurred while executing QA Section: '' x]"
    by blast
  have ok: "\<forall>st m. company_section e text (emit key_points_head (emit page_head st)) = (Inr (), m) \<longrightarrow>
           screen (main e st) = screen m @ T @ Q"
  proof (intro allI impI)
    fix st m
    assume "company_section e text (emit key_points_head (emit page_head st)) = (Inr (), m)"
    from main_after_metadata [OF assms this]
    have "main e st = qa_section e c (tables_section e c m)" .
    with T2 Q2 show "screen (main e st) = screen m @ T @ Q" by simp
  qed
  have stop: "\<forall>st x. extract_company_name e text = Inl x \<longrightarrow>
           screen (main e st) =
             screen st @ page_head @ key_points_head @
               [Expander ''Company Name & Period Ending'', ErrorExc ''An error occurred: '' x]
           \<and> files (main e st) = files st"
  proof (intro allI impI)
    fix st x
    assume "extract_company_name e text = Inl x"
    from main_ner_fails [OF assms this, of st]
    show "screen (main e st) =
             screen st @ page_head @ key_points_head @
               [Expander ''Company Name & Period Ending'', ErrorExc ''An error occurred: '' x]
           \<and> files (main e st) = files st"
      by (simp add: state_simps)
  qed
  show ?thesis
    by (rule exI [of _ T], rule exI [of _ Q]) (intro conjI; fact)
qed


theorem table_and_qa_failures_are_local_witness:
  "screen (main sample_env_tables_qa_fail sample_state) =
     page_head @ key_points_head @
       [Expander ''Company Name & Period Ending'',
        Write '' - Acme Corporation'',
        Write '' - For The Quarterly Period Ended: March 31, 2024'',
        Expander ''Key Financial Statements'',
        ErrorExc ''An error occurred while reading key tables from PDF: '' (LibraryError ''camelot''),
        Write ''No tables matching the specified keywords extracted.'',
        ErrorExc ''An error occurred while executing QA Section: '' (LibraryError ''openai'')]
   \<and> files (main sample_env_ner_fails sample_state) = files sample_state"
proof -
  let ?text = "''Acme Corporation Form 10-Q for the quarterly period ended: March 31, 2024''"
  have up: "uploaded sample_env_tables_qa_fail = Some sample_bytes"
    by (simp add: sample_env_tables_qa_fail_def sample_env_def)
  have tx: "extract_text_from_pdf sample_env_tables_qa_fail sample_bytes = Inr ?text"
    by (simp add: sample_env_tables_qa_fail_def sample_env_def extract_text_from_pdf_def)
  have names: "extract_company_name sample_env_tables_qa_fail ?text = Inr [''Acme Corporation'']"
    by (simp add: sample_env_tables_qa_fail_def sample_env_def extract_company_name_def)
  have first: "title (first_company [''Acme Corporation'']) = ''Acme Corporation''"
    by code_simp
  have period: "extract_specific_dates ?text = Inr ''For The Quarterly Period Ended: March 31, 2024''"
    by code_simp
  have cs: "company_section sample_env_tables_qa_fail ?text
              (emit key_points_head (emit page_head sample_state)) =
            (Inr (), emit [Write '' - For The Quarterly Period Ended: March 31, 2024'']
                       (emit [Write '' - Acme Corporation'']
                         (emit [Expander ''Company Name & Period Ending'']
                           (emit key_points_head (emit page_head sample_state)))))"
    by (simp add: company_section_def Let_def names first period)
  have cam: "camelot_read_pdf sample_env_tables_qa_fail sample_bytes = Inl (LibraryError ''camelot'')"
    by (simp add: sample_env_tables_qa_fail_def)
  have idx: "create_index sample_env_tables_qa_fail sample_bytes = Inl (LibraryError ''openai'')"
    by (simp add: sample_env_tables_qa_fail_def)
  from table_and_qa_failures_are_local [OF up tx] cs cam idx
  have a: "screen (main sample_env_tables_qa_fail sample_state) =
     screen (emit [Write '' - For The Quarterly Period Ended: March 31, 2024'']
                       (emit [Write '' - Acme Corporation'']
                         (emit [Expander ''Company Name & Period Ending'']
                           (emit key_points_head (emit page_head sample_state))))) @
       [Expander ''Key Financial Statements'',
        ErrorExc ''An error occurred while reading key tables from PDF: '' (LibraryError ''camelot''),
        Write ''No tables matching the specified keywords extracted.''] @
       [ErrorExc ''An error occurred while executing QA Section: '' (LibraryError ''openai'')]"
    by metis
  have up': "uploaded sample_env_ner_fails = Some sample_bytes"
    by (simp add: sample_env_ner_fails_def sample_env_def)
  have tx': "extract_text_from_pdf sample_env_ner_fails sample_bytes = Inr ?text"
    by (simp add: sample_env_ner_fails_def sample_env_def extract_text_from_pdf_def)
  have ner: "extract_company_name sample_env_ner_fails ?text =
               Inl (LibraryError ''ValueError: text exceeds nlp.max_length'')"
    by (simp add: sample_env_ner_fails_def extract_company_name_def)
  from table_and_qa_failures_are_local [OF up' tx'] ner
  have b: "files (main sample_env_ner_fails sample_state) = files sample_state"
    by metis
  from a b show ?thesis
    by (simp add: state_simps sample_state_def)
qed

text \<open>
  The claim as stated fails: when spaCy raises on the extracted text, and also when the text
  has no period statement, the page ends with the outer handler's error and shows neither the
  tables nor the question-answering section.
\<close>

theorem metadata_failure_stops_page_counterexample:
  "extract_text_from_pdf sample_env_ner_fails sample_bytes =
     Inr ''Acme Corporation Form 10-Q for the quarterly period ended: March 31, 2024''
   \<and> screen (main sample_env_ner_fails sample_state) =
       page_head @ key_points_head @
         [Expander ''Company Name & Period Ending'',
          ErrorExc ''An error occurred: '' (LibraryError ''ValueError: text exceeds nlp.max_length'')]
   \<and> Expander ''Key Financial Statements'' \<notin> set (screen (main sample_env_ner_fails sample_state))
   \<and> Expander ''Q & A with uploaded Financial Statement''
        \<notin> set (screen (main sample_env_ner_fails sample_state))
   \<and> extract_text_from_pdf sample_env_no_period sample_bytes =
       Inr ''Acme Corporation Form 10-Q Commission file 1-2345''
   \<and> screen (main sample_env_no_period sample_state) =
       page_head @ key_points_head @
         [Expander ''Company Name & Period Ending'',
          Write '' - Acme Corporation'',
          ErrorExc ''An error occurred: '' (KeyError ''0'')]
   \<and> Expander ''Key Financial Statements'' \<notin> set (screen (main sample_env_no_period sample_state))
   \<and> Expander ''Q & A with uploaded Financial Statement''
        \<notin> set (screen (main sample_env_no_period sample_state))"
  by code_simp

end
